theory Spec2Isabelle
  imports Complex_Main
begin

section \<open>Smale's alpha theory: the module \<open>smale/smale.py\<close>\<close>

text \<open>
  The module computes Smale's quantities beta, gamma and alpha of a function at a point and
  wraps \<open>scipy.optimize.newton\<close> with a certification test.

  Numbers. The functions and the point may be real or complex (the test suite starts Newton
  at complex points), so every number a callable takes or returns is a \<^typ>\<open>complex\<close>;
  \<open>numpy.abs\<close> is the modulus \<^const>\<open>cmod\<close> and yields a \<^typ>\<open>real\<close>. Arithmetic
  is exact: the rounding of IEEE doubles is not part of this model.

  Scalars. The callables of this model return Python's own \<open>int\<close>, \<open>float\<close> and
  \<open>complex\<close>, as the lambdas of \<open>test_function_arguments\<close> do. On these a division
  whose divisor is zero raises \<open>ZeroDivisionError\<close>, and so it does here. Callables that
  return numpy scalars (a \<open>poly1d\<close>) behave alike as long as no divisor is zero; at a zero
  divisor numpy yields \<open>inf\<close> or \<open>nan\<close> and raises nothing, and this model does not
  describe such a call. What is proved below about a zero divisor is therefore proved of
  Python scalars only; what is proved about \<open>smale_newton\<close> is stated in terms of whether
  \<open>smale_alpha\<close> returns or raises, not in terms of the divisor.

  Callables. \<open>f(*_args)\<close> applies a callable to the tuple \<open>_args = (x0,) + args\<close>, so a
  callable is a function of the list of its positional arguments (the source's \<open>_args\<close>
  is written \<open>xargs\<close> below). Callables are total: an exception raised inside a user
  function is outside this model.
\<close>

type_synonym callable = "complex list \<Rightarrow> complex"

datatype error = IndexError | ValueError | ZeroDivisionError | RuntimeError

subsection \<open>\<open>smale_beta\<close>\<close>

text \<open>
  \<^verbatim>\<open>
  _args = (x0,) + args
  beta = numpy.abs(f(*_args)/df[0](*_args))
  return beta
  \<close>
  \<open>df[0]\<close> raises \<open>IndexError\<close> on an empty list; the division of Python scalars raises
  \<open>ZeroDivisionError\<close> on a zero divisor.
\<close>

definition smale_beta :: "callable \<Rightarrow> complex \<Rightarrow> callable list \<Rightarrow> complex list \<Rightarrow> error + real" where
  "smale_beta f x0 df args =
     (let xargs = x0 # args;
          num = f xargs
      in if length df = 0 then Inl IndexError
         else let den = (df ! 0) xargs
              in if den = 0 then Inl ZeroDivisionError
                 else Inr (cmod (num / den)))"

subsection \<open>\<open>smale_gamma\<close>\<close>

text \<open>
  \<^verbatim>\<open>
  _args = (x0,) + args
  gammas = numpy.zeros(len(df)-1, dtype=numpy.double)

  scale = 1./df[0](*_args)
  for k in range(1,len(df)):
      scale /= 1.0*(k+1)  # efficiently compute 1/(dfx0 * k!)
      gammas[k-1] = numpy.abs(scale * df[k](*_args))**(1./k)

  gamma = gammas.max()
  return gamma
  \<close>
  The loop state is the pair of \<open>scale\<close> and the array \<open>gammas\<close>; \<open>gamma_body\<close> is
  one pass of the loop body at index \<open>k\<close>. \<open>k\<close> ranges over \<open>1 .. len(df) - 1\<close>, so
  \<open>df[k]\<close> and \<open>gammas[k-1]\<close> are in range and \<open>1.0*(k+1)\<close> is not zero.
  \<open>numpy.zeros\<close> raises \<open>ValueError\<close> on the negative length \<open>len(df) - 1 = -1\<close>, and
  \<open>max\<close> of an array of size zero raises \<open>ValueError\<close>. \<open>1./df[0](*_args)\<close> raises
  \<open>ZeroDivisionError\<close> on a zero divisor (Python scalars). The argument \<open>f\<close> is not used.
\<close>

definition gamma_body :: "callable list \<Rightarrow> complex list \<Rightarrow> complex \<times> real list \<Rightarrow> nat \<Rightarrow> complex \<times> real list" where
  "gamma_body df xargs st k =
     (let scale = fst st / (1 * of_nat (k + 1))
      in (scale, (snd st)[k - 1 := cmod (scale * (df ! k) xargs) powr (1 / real k)]))"

definition smale_gamma :: "callable \<Rightarrow> complex \<Rightarrow> callable list \<Rightarrow> complex list \<Rightarrow> error + real" where
  "smale_gamma f x0 df args =
     (let xargs = x0 # args
      in if length df = 0 then Inl ValueError
         else let gammas = replicate (length df - 1) (0::real);
                  den = (df ! 0) xargs
              in if den = 0 then Inl ZeroDivisionError
                 else let gammas = snd (foldl (gamma_body df xargs) (1 / den, gammas) [1..<length df])
                      in if length gammas = 0 then Inl ValueError
                         else Inr (Max (set gammas)))"

subsection \<open>\<open>smale_alpha\<close>\<close>

text \<open>
  \<^verbatim>\<open>
  alpha = smale_beta(f,x0,df,args=args) * smale_gamma(f,x0,df,args=args)
  return alpha
  \<close>
  The left operand is evaluated first; an exception of either call leaves the function.
\<close>

definition smale_alpha :: "callable \<Rightarrow> complex \<Rightarrow> callable list \<Rightarrow> complex list \<Rightarrow> error + real" where
  "smale_alpha f x0 df args =
     (case smale_beta f x0 df args of
        Inl e \<Rightarrow> Inl e
      | Inr beta \<Rightarrow>
          (case smale_gamma f x0 df args of
             Inl e \<Rightarrow> Inl e
           | Inr gamma \<Rightarrow> Inr (beta * gamma)))"

subsection \<open>\<open>smale_newton\<close>\<close>

text \<open>
  \<open>scipy.optimize.newton\<close> is an external collaborator: the model takes it as the
  parameter \<open>newton\<close>, a function of the arguments of the call that returns the root
  estimate or the exception it raises. \<open>warnings.warn\<close> and the call of the solver are
  the two effects of \<open>smale_newton\<close>; the model returns them as the trace of events, in
  the order in which they happen, beside the result. A warning is not fatal (the default
  warning filters); an exception ends the function at once.
\<close>

record newton_call =
  call_func :: callable
  call_x0 :: complex
  call_fprime :: "callable option"
  call_args :: "complex list"
  call_tol :: real
  call_maxiter :: int

datatype warning = RuntimeWarning string

datatype event = Warn warning | Call_newton newton_call

text \<open>
  The threshold. Python reads the literal \<open>0.15767078078675478\<close> as the IEEE double nearest
  to it, and \<open>alpha > 0.15767078078675478\<close> compares with that double. The doubles between
  \<open>1/8\<close> and \<open>1/4\<close> are the multiples \<open>m / 2^55\<close> with \<open>2^52 \<le> m < 2^53\<close>; the one
  nearest to the literal is \<open>5680688556787552 / 2^55 = 177521517399611 / 2^50\<close>, which is
  larger than the decimal by about \<open>2.8e-18\<close>.
\<close>

definition alpha_threshold :: real where
  "alpha_threshold = 177521517399611 / 2 ^ 50"

text \<open>
  \<^verbatim>\<open>
  if len(df) < 2:
      warnings.warn('not enough derivatives provided for smale',
                    RuntimeWarning)
  else:
      alpha = smale_alpha(f, x0, df, args=args)
      if alpha > 0.15767078078675478:
          warnings.warn('the estimate may not be an approximate solution to the '
                        'function', RuntimeWarning)
  \<close>
  The block returns the warnings it emits, or the exception of \<open>smale_alpha\<close>.
\<close>

definition smale_newton_certify :: "callable \<Rightarrow> complex \<Rightarrow> callable list \<Rightarrow> complex list \<Rightarrow> error + event list" where
  "smale_newton_certify f x0 df args =
     (if length df < 2
      then Inr [Warn (RuntimeWarning ''not enough derivatives provided for smale'')]
      else (case smale_alpha f x0 df args of
              Inl e \<Rightarrow> Inl e
            | Inr alpha \<Rightarrow>
                if alpha > alpha_threshold
                then Inr [Warn (RuntimeWarning ''the estimate may not be an approximate solution to the function'')]
                else Inr []))"

text \<open>
  \<^verbatim>\<open>
  fprime = df[0] if len(df) > 0 else None
  zero = newton(f, x0, fprime=fprime, args=args, tol=tol, maxiter=maxiter)
  return zero
  \<close>
\<close>

definition smale_newton ::
  "(newton_call \<Rightarrow> error + complex) \<Rightarrow> callable \<Rightarrow> complex \<Rightarrow> callable list \<Rightarrow> complex list \<Rightarrow> real \<Rightarrow> int
     \<Rightarrow> event list \<times> (error + complex)" where
  "smale_newton newton f x0 df args tol maxiter =
     (case smale_newton_certify f x0 df args of
        Inl e \<Rightarrow> ([], Inl e)
      | Inr warned \<Rightarrow>
          (let fprime = (if length df > 0 then Some (df ! 0) else None);
               call = \<lparr>call_func = f, call_x0 = x0, call_fprime = fprime,
                       call_args = args, call_tol = tol, call_maxiter = maxiter\<rparr>
           in (warned @ [Call_newton call], newton call)))"

text \<open>The calls of the solver in a trace, in order.\<close>

fun newton_calls :: "event list \<Rightarrow> newton_call list" where
  "newton_calls [] = []"
| "newton_calls (Warn w # es) = newton_calls es"
| "newton_calls (Call_newton c # es) = c # newton_calls es"

subsection \<open>The functions of the test suite\<close>

text \<open>
  \<open>test_function_arguments\<close> of \<open>test/test_smale.py\<close>:
  \<^verbatim>\<open>
  f = lambda x,a: x**3 - a
  df = [
      lambda x,a: 3*x**2,
      lambda x,a: 6*x,
      lambda x,a: 6
  ]
  \<close>
  They are called with two positional arguments, \<open>x\<close> and \<open>a\<close>.
\<close>

definition cubic_f :: callable where
  "cubic_f xargs = (xargs ! 0) ^ 3 - xargs ! 1"

definition cubic_df :: "callable list" where
  "cubic_df = [\<lambda>xargs. 3 * (xargs ! 0) ^ 2, \<lambda>xargs. 6 * (xargs ! 0), \<lambda>xargs. 6]"

text \<open>
  A stand-in for the solver in closed instances of the theorems below: it returns its
  starting point. No theorem depends on what the solver computes.
\<close>

definition idle_newton :: "newton_call \<Rightarrow> error + complex" where
  "idle_newton c = Inr (call_x0 c)"

text \<open>
  The defaults of the signature
  \<open>smale_newton(f, x0, df=(), args=(), tol=1.48e-8, maxiter=50)\<close>.
\<close>

definition default_tol :: real where
  "default_tol = 148 / 10 ^ 10"

definition default_maxiter :: int where
  "default_maxiter = 50"

subsection \<open>The closed form of one entry of \<open>gammas\<close>\<close>

text \<open>
  The value the loop of \<open>smale_gamma\<close> stores at \<open>gammas[k-1]\<close> when \<open>scale\<close> starts
  at \<open>s0\<close>: after pass \<open>k\<close> the running \<open>scale\<close> is \<open>s0 / (k+1)!\<close>.
\<close>

definition gterm :: "callable list \<Rightarrow> complex list \<Rightarrow> complex \<Rightarrow> nat \<Rightarrow> real" where
  "gterm df xargs s0 k = cmod (s0 / fact (k + 1) * (df ! k) xargs) powr (1 / real k)"

section \<open>The loop of \<open>smale_gamma\<close>\<close>

text \<open>
  After \<open>n\<close> passes of the loop, \<open>scale\<close> is \<open>s0 / (n+1)!\<close>, the first \<open>n\<close> entries
  of \<open>gammas\<close> hold their closed forms and the other entries are untouched.
\<close>

lemma gamma_loop:
  "n \<le> length g0 \<Longrightarrow>
   foldl (gamma_body df xargs) (s0, g0) [1..<Suc n] =
     (s0 / fact (Suc n), map (\<lambda>j. if j < n then gterm df xargs s0 (j + 1) else g0 ! j) [0..<length g0])"
proof (induction n)
  case 0
  show ?case by (simp add: map_nth)
next
  case (Suc n)
  have "[1..<Suc (Suc n)] = [1..<Suc n] @ [Suc n]" by simp
  then have "foldl (gamma_body df xargs) (s0, g0) [1..<Suc (Suc n)] =
    gamma_body df xargs (foldl (gamma_body df xargs) (s0, g0) [1..<Suc n]) (Suc n)"
    by (simp only: foldl_append foldl.simps)
  also have "\<dots> = gamma_body df xargs (s0 / fact (Suc n), map (\<lambda>j. if j < n then gterm df xargs s0 (j + 1) else g0 ! j) [0..<length g0]) (Suc n)"
    using Suc by simp
  also have "\<dots> = (s0 / fact (Suc (Suc n)), map (\<lambda>j. if j < Suc n then gterm df xargs s0 (j + 1) else g0 ! j) [0..<length g0])"
  proof -
    have sc: "s0 / fact (Suc n) / (1 * of_nat (Suc n + 1)) = s0 / fact (Suc (Suc n))"
      by (simp add: field_simps)
    have "(map (\<lambda>j. if j < n then gterm df xargs s0 (j + 1) else g0 ! j) [0..<length g0])
            [n := gterm df xargs s0 (Suc n)] =
          map (\<lambda>j. if j < Suc n then gterm df xargs s0 (j + 1) else g0 ! j) [0..<length g0]"
      by (rule nth_equalityI) (auto simp add: nth_list_update less_Suc_eq)
    then show ?thesis
      unfolding gamma_body_def Let_def fst_conv snd_conv sc gterm_def by simp
  qed
  finally show ?case .
qed

lemma gamma_value:
  assumes "2 \<le> length df" and "(df ! 0) (x0 # args) \<noteq> 0"
  shows "smale_gamma f x0 df args =
     Inr (Max (set (map (\<lambda>j. gterm df (x0 # args) (1 / (df ! 0) (x0 # args)) (j + 1)) [0..<length df - 1])))"
proof -
  let ?s0 = "1 / (df ! 0) (x0 # args)"
  let ?g0 = "replicate (length df - 1) (0::real)"
  obtain n where n: "length df = Suc n" and n1: "1 \<le> n"
    using assms(1) by (cases "length df") auto
  have "foldl (gamma_body df (x0 # args)) (?s0, ?g0) [1..<Suc n] =
     (?s0 / fact (Suc n),
      map (\<lambda>j. if j < n then gterm df (x0 # args) ?s0 (j + 1) else ?g0 ! j) [0..<length ?g0])"
    by (rule gamma_loop) (simp add: n)
  then have loop: "snd (foldl (gamma_body df (x0 # args)) (?s0, ?g0) [1..<length df])
     = map (\<lambda>j. gterm df (x0 # args) ?s0 (j + 1)) [0..<length df - 1]"
    by (simp add: n)
  have ne: "length (map (\<lambda>j. gterm df (x0 # args) ?s0 (j + 1)) [0..<length df - 1]) \<noteq> 0"
    using n n1 by simp
  have l0: "length df \<noteq> 0"
    using n by simp
  show ?thesis
    unfolding smale_gamma_def Let_def loop
    by (simp only: l0 assms(2) ne if_False)
qed

section \<open>The functions of the test suite at three points\<close>

text \<open>
  The values of the estimators for \<open>f(x,a) = x**3 - a\<close> with \<open>a = 1\<close> at \<open>x0 = 10\<close>
  (the point of \<open>test_warning_alpha_condition\<close>), at \<open>x0 = 1.1\<close> (the point of
  \<open>test_function_arguments\<close>) and at \<open>x0 = 0\<close>, where the first derivative vanishes.
\<close>

lemma gamma_cubic:
  assumes "x \<noteq> 0"
  shows "smale_gamma f x cubic_df [a] =
     Inr (max (cmod (6 * x / (2 * (3 * x ^ 2)))) (cmod (6 / (6 * (3 * x ^ 2))) powr (1 / 2)))"
proof -
  have l: "length cubic_df - 1 = 2" and h: "2 \<le> length cubic_df"
    by (simp_all add: cubic_df_def)
  have d: "(cubic_df ! 0) (x # [a]) \<noteq> 0"
    using assms by (simp add: cubic_df_def)
  have u: "[0..<2] = [0, 1]"
    by (simp add: upt_rec)
  show ?thesis
    unfolding gamma_value[OF h d] l u
    by (simp add: gterm_def cubic_df_def fact_numeral)
qed

lemma gamma_cubic_10: "smale_gamma f 10 cubic_df [1] = Inr (1 / 10)"
proof -
  have "sqrt (1 / 300) \<le> (1 / 10 :: real)"
    by (rule real_le_lsqrt) (simp_all add: power2_eq_square)
  then have r: "(1 / 300 :: real) powr (1 / 2) \<le> 1 / 10"
    by (simp only: powr_half_sqrt)
  have "smale_gamma f 10 cubic_df [1] = Inr (max (1 / 10) ((1 / 300) powr (1 / 2)))"
    by (simp add: gamma_cubic norm_divide)
  then show ?thesis using r by (simp add: max_def)
qed

lemma gamma_cubic_11_10: "smale_gamma f (11 / 10) cubic_df [1] = Inr (10 / 11)"
proof -
  have "sqrt (100 / 363) \<le> (10 / 11 :: real)"
    by (rule real_le_lsqrt) (simp_all add: power2_eq_square)
  then have r: "(100 / 363 :: real) powr (1 / 2) \<le> 10 / 11"
    by (simp only: powr_half_sqrt)
  have "smale_gamma f (11 / 10) cubic_df [1] = Inr (max (10 / 11) ((100 / 363) powr (1 / 2)))"
    by (simp add: gamma_cubic norm_divide power2_eq_square)
  then show ?thesis using r by (simp add: max_def)
qed

lemma beta_cubic_10: "smale_beta cubic_f 10 cubic_df [1] = Inr (333 / 100)"
  by (simp add: smale_beta_def cubic_f_def cubic_df_def norm_divide)

lemma beta_cubic_11_10: "smale_beta cubic_f (11 / 10) cubic_df [1] = Inr (331 / 3630)"
  by (simp add: smale_beta_def cubic_f_def cubic_df_def norm_divide power2_eq_square power3_eq_cube)

lemma alpha_cubic_10: "smale_alpha cubic_f 10 cubic_df [1] = Inr (333 / 1000)"
  by (simp add: smale_alpha_def beta_cubic_10 gamma_cubic_10)

lemma alpha_cubic_11_10: "smale_alpha cubic_f (11 / 10) cubic_df [1] = Inr (331 / 3993)"
  by (simp add: smale_alpha_def beta_cubic_11_10 gamma_cubic_11_10)

lemma beta_cubic_0: "smale_beta cubic_f 0 cubic_df [1] = Inl ZeroDivisionError"
  by (simp add: smale_beta_def cubic_df_def)

lemma gamma_cubic_0: "smale_gamma cubic_f 0 cubic_df [1] = Inl ZeroDivisionError"
  by (simp add: smale_gamma_def cubic_df_def)

lemma alpha_cubic_0: "smale_alpha cubic_f 0 cubic_df [1] = Inl ZeroDivisionError"
  by (simp add: smale_alpha_def beta_cubic_0)

section \<open>\<open>smale_gamma\<close>: the maximum of the closed-form terms\<close>

text \<open>
  Claim C1. When \<open>df\<close> has at least two entries and \<open>df[0](x0,*args)\<close> is not zero,
  \<open>smale_gamma\<close> returns the maximum, over the orders \<open>k = 2 .. len(df)\<close>, of
  \<open>|df[k-1](x0,*args) / (k! * df[0](x0,*args))| ** (1/(k-1))\<close>.
\<close>

theorem smale_gamma_max_of_terms:
  assumes "2 \<le> length df" and "(df ! 0) (x0 # args) \<noteq> 0"
  shows "smale_gamma f x0 df args =
     Inr (Max ((\<lambda>k. cmod ((df ! (k - 1)) (x0 # args) / (fact k * (df ! 0) (x0 # args))) powr (1 / real (k - 1)))
               ` {2..length df}))"
proof -
  let ?T = "\<lambda>k. cmod ((df ! (k - 1)) (x0 # args) / (fact k * (df ! 0) (x0 # args))) powr (1 / real (k - 1))"
  have t: "gterm df (x0 # args) (1 / (df ! 0) (x0 # args)) (j + 1) = ?T (j + 2)" for j
    by (simp add: gterm_def field_simps)
  have "{2..length df} = (\<lambda>j. j + 2) ` {0..<length df - 1}"
  proof (rule set_eqI)
    fix k
    show "k \<in> {2..length df} \<longleftrightarrow> k \<in> (\<lambda>j. j + 2) ` {0..<length df - 1}"
    proof
      assume "k \<in> {2..length df}"
      then have "k = (k - 2) + 2" and "k - 2 \<in> {0..<length df - 1}"
        by auto
      then show "k \<in> (\<lambda>j. j + 2) ` {0..<length df - 1}"
        by (rule image_eqI)
    next
      assume "k \<in> (\<lambda>j. j + 2) ` {0..<length df - 1}"
      then show "k \<in> {2..length df}"
        by auto
    qed
  qed
  then have "?T ` {2..length df} = (\<lambda>j. ?T (j + 2)) ` {0..<length df - 1}"
    by (simp only: image_image)
  then show ?thesis
    by (simp only: gamma_value[OF assms] t set_map set_upt)
qed

theorem smale_gamma_max_of_terms_witness:
  "2 \<le> length cubic_df \<and> (cubic_df ! 0) (10 # [1]) \<noteq> 0 \<and>
   smale_gamma cubic_f 10 cubic_df [1] = Inr (1 / 10)"
proof -
  have l: "length cubic_df = 3" and d: "(cubic_df ! 0) (10 # [1]) \<noteq> 0"
    by (simp_all add: cubic_df_def)
  have h: "2 \<le> length cubic_df"
    by (simp add: l)
  have s: "{2..3::nat} = {2, 3}"
    by auto
  have "sqrt (1 / 300) \<le> (1 / 10 :: real)"
    by (rule real_le_lsqrt) (simp_all add: power2_eq_square)
  then have r: "(1 / 300 :: real) powr (1 / 2) \<le> 1 / 10"
    by (simp only: powr_half_sqrt)
  have t2: "cmod ((cubic_df ! (2 - 1)) (10 # [1]) / (fact 2 * (cubic_df ! 0) (10 # [1]))) powr (1 / real (2 - 1)) = 1 / 10"
    by (simp add: cubic_df_def fact_numeral norm_divide)
  have t3: "cmod ((cubic_df ! (3 - 1)) (10 # [1]) / (fact 3 * (cubic_df ! 0) (10 # [1]))) powr (1 / real (3 - 1)) = (1 / 300) powr (1 / 2)"
    by (simp add: cubic_df_def fact_numeral norm_divide)
  have "smale_gamma cubic_f 10 cubic_df [1] = Inr (max (1 / 10) ((1 / 300) powr (1 / 2)))"
    using smale_gamma_max_of_terms[OF h d, of cubic_f] unfolding l s
    by (simp only: image_insert image_empty t2 t3) simp
  then show ?thesis
    using h d r by (simp add: max_def)
qed

section \<open>\<open>smale_alpha\<close> is the product of beta and gamma\<close>

text \<open>
  Claim C2. With at least two derivatives, \<open>smale_alpha\<close> is \<open>smale_beta\<close> times
  \<open>smale_gamma\<close> on the same arguments: when \<open>df[0](x0,*args)\<close> is not zero both
  factors return and alpha is their product; when it is zero all three raise
  \<open>ZeroDivisionError\<close> (Python scalars).
\<close>

theorem smale_alpha_is_beta_times_gamma:
  assumes "2 \<le> length df"
  shows "((df ! 0) (x0 # args) \<noteq> 0 \<longrightarrow>
            (\<exists>beta gamma. smale_beta f x0 df args = Inr beta \<and> smale_gamma f x0 df args = Inr gamma \<and>
                smale_alpha f x0 df args = Inr (beta * gamma))) \<and>
         ((df ! 0) (x0 # args) = 0 \<longrightarrow>
            smale_beta f x0 df args = Inl ZeroDivisionError \<and> smale_gamma f x0 df args = Inl ZeroDivisionError \<and>
            smale_alpha f x0 df args = Inl ZeroDivisionError)"
proof (cases "(df ! 0) (x0 # args) = 0")
  case True
  have l0: "length df \<noteq> 0"
    using assms by auto
  have "smale_beta f x0 df args = Inl ZeroDivisionError"
    using True l0 by (simp add: smale_beta_def)
  moreover have "smale_gamma f x0 df args = Inl ZeroDivisionError"
    using True l0 by (simp add: smale_gamma_def)
  ultimately show ?thesis
    using True by (simp add: smale_alpha_def)
next
  case False
  have l0: "length df \<noteq> 0"
    using assms by auto
  have b: "smale_beta f x0 df args = Inr (cmod (f (x0 # args) / (df ! 0) (x0 # args)))"
    using False l0 by (simp add: smale_beta_def Let_def)
  note g = gamma_value[OF assms False, of f]
  show ?thesis
    using False by (simp add: smale_alpha_def b g)
qed

theorem smale_alpha_is_beta_times_gamma_witness:
  "2 \<le> length cubic_df \<and> (cubic_df ! 0) (10 # [1]) \<noteq> 0 \<and> (cubic_df ! 0) (0 # [1]) = 0 \<and>
   smale_alpha cubic_f 10 cubic_df [1] = Inr (333 / 100 * (1 / 10)) \<and>
   smale_alpha cubic_f 0 cubic_df [1] = Inl ZeroDivisionError"
proof -
  have h: "2 \<le> length cubic_df" and d: "(cubic_df ! 0) (10 # [1]) \<noteq> 0" and z: "(cubic_df ! 0) (0 # [1]) = 0"
    by (simp_all add: cubic_df_def)
  from smale_alpha_is_beta_times_gamma[OF h, of 10 "[1]" cubic_f] d
  obtain beta gamma where "smale_beta cubic_f 10 cubic_df [1] = Inr beta"
    and "smale_gamma cubic_f 10 cubic_df [1] = Inr gamma"
    and a: "smale_alpha cubic_f 10 cubic_df [1] = Inr (beta * gamma)"
    by blast
  then have "beta = 333 / 100" and "gamma = 1 / 10"
    by (simp_all add: beta_cubic_10 gamma_cubic_10)
  with a have "smale_alpha cubic_f 10 cubic_df [1] = Inr (333 / 100 * (1 / 10))"
    by simp
  moreover have "smale_alpha cubic_f 0 cubic_df [1] = Inl ZeroDivisionError"
    using smale_alpha_is_beta_times_gamma[OF h, of 0 "[1]" cubic_f] z by blast
  ultimately show ?thesis
    using h d z by blast
qed

section \<open>\<open>smale_beta\<close>\<close>

text \<open>
  Claim C5. With at least one derivative and \<open>df[0](x0,*args)\<close> not zero,
  \<open>smale_beta\<close> returns the modulus of \<open>f(x0,*args) / df[0](x0,*args)\<close>, the size of
  the Newton step at \<open>x0\<close>.
\<close>

theorem smale_beta_newton_step:
  assumes "1 \<le> length df" and "(df ! 0) (x0 # args) \<noteq> 0"
  shows "smale_beta f x0 df args = Inr (cmod (f (x0 # args) / (df ! 0) (x0 # args)))"
  using assms by (auto simp add: smale_beta_def Let_def)

theorem smale_beta_newton_step_witness:
  "1 \<le> length cubic_df \<and> (cubic_df ! 0) (10 # [1]) \<noteq> 0 \<and>
   smale_beta cubic_f 10 cubic_df [1] = Inr (333 / 100)"
proof -
  have h: "1 \<le> length cubic_df" and d: "(cubic_df ! 0) (10 # [1]) \<noteq> 0"
    by (simp_all add: cubic_df_def)
  have "smale_beta cubic_f 10 cubic_df [1] = Inr (333 / 100)"
    using smale_beta_newton_step[OF h d, of cubic_f]
    by (simp add: cubic_f_def cubic_df_def norm_divide)
  then show ?thesis
    using h d by blast
qed

section \<open>\<open>smale_gamma\<close> with fewer than two derivatives\<close>

text \<open>
  Claim C6. With a derivative list of length 0 or 1, \<open>smale_gamma\<close> raises and returns
  no value: \<open>ValueError\<close> (from \<open>numpy.zeros(-1)\<close> on the empty list, from \<open>max\<close> of
  the empty array on a list of length 1), or \<open>ZeroDivisionError\<close> when the single
  derivative is zero at \<open>x0\<close> (Python scalars).
\<close>

theorem smale_gamma_too_few_derivatives:
  assumes "length df < 2"
  shows "smale_gamma f x0 df args =
     Inl (if length df = 1 \<and> (df ! 0) (x0 # args) = 0 then ZeroDivisionError else ValueError)"
  using assms by (auto simp add: smale_gamma_def Let_def less_Suc_eq numeral_2_eq_2)

theorem smale_gamma_too_few_derivatives_witness:
  "length ([] :: callable list) < 2 \<and> length [cubic_df ! 0] < 2 \<and>
   smale_gamma cubic_f 10 [] [1] = Inl ValueError \<and>
   smale_gamma cubic_f 10 [cubic_df ! 0] [1] = Inl ValueError \<and>
   smale_gamma cubic_f 0 [cubic_df ! 0] [1] = Inl ZeroDivisionError"
  using smale_gamma_too_few_derivatives[of "[]" cubic_f 10 "[1]"]
    smale_gamma_too_few_derivatives[of "[cubic_df ! 0]" cubic_f 10 "[1]"]
    smale_gamma_too_few_derivatives[of "[cubic_df ! 0]" cubic_f 0 "[1]"]
  by (simp add: cubic_df_def)

section \<open>What the estimators do not read\<close>

text \<open>
  Claim C9. \<open>smale_gamma\<close> does not depend on its argument \<open>f\<close>: two calls that differ
  only in \<open>f\<close> have the same outcome.
\<close>

theorem smale_gamma_ignores_f:
  "smale_gamma f1 x0 df args = smale_gamma f2 x0 df args"
  by (simp add: smale_gamma_def)

text \<open>
  Claim C10. \<open>smale_beta\<close> reads only the first entry of \<open>df\<close>: two calls whose
  non-empty derivative lists start with the same function have the same outcome.
\<close>

theorem smale_beta_first_derivative_only:
  assumes "1 \<le> length df1" and "1 \<le> length df2" and "df1 ! 0 = df2 ! 0"
  shows "smale_beta f x0 df1 args = smale_beta f x0 df2 args"
  using assms by (auto simp add: smale_beta_def Let_def)

theorem smale_beta_first_derivative_only_witness:
  "1 \<le> length cubic_df \<and> 1 \<le> length [cubic_df ! 0] \<and> cubic_df ! 0 = [cubic_df ! 0] ! 0 \<and>
   smale_beta cubic_f 10 [cubic_df ! 0] [1] = Inr (333 / 100)"
proof -
  have h: "1 \<le> length cubic_df" "1 \<le> length [cubic_df ! 0]" "cubic_df ! 0 = [cubic_df ! 0] ! 0"
    by (simp_all add: cubic_df_def)
  have "smale_beta cubic_f 10 cubic_df [1] = smale_beta cubic_f 10 [cubic_df ! 0] [1]"
    using h by (rule smale_beta_first_derivative_only)
  then show ?thesis
    using h by (simp add: beta_cubic_10)
qed

section \<open>The estimators return non-negative numbers\<close>

text \<open>
  An entry of \<open>gammas\<close> is a power of a modulus, and \<open>smale_gamma\<close> returns one of the
  entries.
\<close>

lemma gterm_nonneg: "0 \<le> gterm df xargs s0 k"
  by (simp add: gterm_def)

lemma gamma_nonneg:
  assumes "smale_gamma f x0 df args = Inr g"
  shows "0 \<le> g"
proof -
  have l: "2 \<le> length df"
  proof (rule ccontr)
    assume "\<not> 2 \<le> length df"
    then have "length df < 2" by simp
    then have "\<exists>e. smale_gamma f x0 df args = Inl e"
      by (auto simp add: smale_gamma_def Let_def less_Suc_eq numeral_2_eq_2)
    with assms show False by auto
  qed
  have d: "(df ! 0) (x0 # args) \<noteq> 0"
  proof
    assume "(df ! 0) (x0 # args) = 0"
    then have "smale_gamma f x0 df args = Inl ZeroDivisionError"
      using l by (auto simp add: smale_gamma_def Let_def)
    with assms show False by simp
  qed
  let ?gs = "map (\<lambda>j. gterm df (x0 # args) (1 / (df ! 0) (x0 # args)) (j + 1)) [0..<length df - 1]"
  have g: "g = Max (set ?gs)"
    using assms gamma_value[OF l d, of f] by simp
  have ne: "set ?gs \<noteq> {}"
    using l by simp
  have "finite (set ?gs)"
    by simp
  then have "Max (set ?gs) \<in> set ?gs"
    using ne by (rule Max_in)
  then obtain j where "Max (set ?gs) = gterm df (x0 # args) (1 / (df ! 0) (x0 # args)) (j + 1)"
    by auto
  then show ?thesis
    by (simp only: g gterm_nonneg)
qed

text \<open>
  Claim C8. Whenever they return, \<open>smale_beta\<close> and \<open>smale_gamma\<close> return non-negative
  reals, also for complex-valued \<open>f\<close> and derivatives, and so does \<open>smale_alpha\<close>, their
  product.
\<close>

theorem smale_values_nonneg:
  "(smale_beta f x0 df args = Inr beta \<longrightarrow> 0 \<le> beta) \<and>
   (smale_gamma f x0 df args = Inr gamma \<longrightarrow> 0 \<le> gamma) \<and>
   (smale_alpha f x0 df args = Inr alpha \<longrightarrow> 0 \<le> alpha)"
proof (intro conjI impI)
  assume "smale_beta f x0 df args = Inr beta"
  then show b: "0 \<le> beta"
    by (auto simp add: smale_beta_def Let_def split: if_splits)
next
  assume "smale_gamma f x0 df args = Inr gamma"
  then show "0 \<le> gamma"
    by (rule gamma_nonneg)
next
  assume "smale_alpha f x0 df args = Inr alpha"
  then obtain b g where b: "smale_beta f x0 df args = Inr b" and g: "smale_gamma f x0 df args = Inr g"
    and a: "alpha = b * g"
    by (auto simp add: smale_alpha_def split: sum.splits)
  from b have "0 \<le> b"
    by (auto simp add: smale_beta_def Let_def split: if_splits)
  moreover from g have "0 \<le> g"
    by (rule gamma_nonneg)
  ultimately show "0 \<le> alpha"
    by (simp add: a)
qed

theorem smale_values_nonneg_witness:
  "smale_beta cubic_f 10 cubic_df [1] = Inr (333 / 100) \<and> (0::real) \<le> 333 / 100 \<and>
   smale_gamma cubic_f 10 cubic_df [1] = Inr (1 / 10) \<and> (0::real) \<le> 1 / 10 \<and>
   smale_alpha cubic_f 10 cubic_df [1] = Inr (333 / 1000) \<and> (0::real) \<le> 333 / 1000"
  using smale_values_nonneg[of cubic_f 10 cubic_df "[1]" "333 / 100" "1 / 10" "333 / 1000"]
    beta_cubic_10 gamma_cubic_10[of cubic_f] alpha_cubic_10
  by blast

section \<open>\<open>smale_newton\<close>: warnings and the call of the solver\<close>

text \<open>
  The certification block warns and returns when the list is short. \<open>smale_alpha\<close> raises
  on a short list and, on Python scalars, on a zero first derivative; in exact arithmetic
  it returns otherwise.
\<close>

lemma certify_short:
  "length df < 2 \<Longrightarrow> smale_newton_certify f x0 df args =
     Inr [Warn (RuntimeWarning ''not enough derivatives provided for smale'')]"
  by (simp add: smale_newton_certify_def)

lemma alpha_short: "length df < 2 \<Longrightarrow> \<exists>e. smale_alpha f x0 df args = Inl e"
  by (auto simp add: smale_alpha_def smale_beta_def smale_gamma_def Let_def less_Suc_eq numeral_2_eq_2
      split: sum.splits)

lemma alpha_zero_derivative:
  "length df \<noteq> 0 \<Longrightarrow> (df ! 0) (x0 # args) = 0 \<Longrightarrow> smale_alpha f x0 df args = Inl ZeroDivisionError"
  by (simp add: smale_alpha_def smale_beta_def)

lemma alpha_returns:
  assumes "2 \<le> length df" and "(df ! 0) (x0 # args) \<noteq> 0"
  shows "\<exists>alpha. smale_alpha f x0 df args = Inr alpha"
proof -
  have "length df \<noteq> 0"
    using assms(1) by auto
  then have "smale_beta f x0 df args = Inr (cmod (f (x0 # args) / (df ! 0) (x0 # args)))"
    using assms(2) by (simp add: smale_beta_def Let_def)
  then show ?thesis
    by (simp add: smale_alpha_def gamma_value[OF assms])
qed

text \<open>
  Claim C7. With fewer than two derivatives (\<open>df\<close> omitted is the empty list),
  \<open>smale_newton\<close> emits the warning \<open>not enough derivatives provided for smale\<close> and then
  calls the solver; the trace and the result hold nothing else. The certification is not
  run: on these inputs \<open>smale_alpha\<close> raises, and \<open>smale_newton\<close> does not.
\<close>

theorem smale_newton_not_enough_derivatives:
  assumes "length df < 2"
  shows "smale_newton newton f x0 df args tol maxiter =
     (let call = \<lparr>call_func = f, call_x0 = x0,
                   call_fprime = (if length df = 1 then Some (df ! 0) else None),
                   call_args = args, call_tol = tol, call_maxiter = maxiter\<rparr>
      in ([Warn (RuntimeWarning ''not enough derivatives provided for smale''), Call_newton call],
          newton call))
     \<and> (\<exists>e. smale_alpha f x0 df args = Inl e)"
proof
  have "(0 < length df) = (length df = 1)"
    using assms by linarith
  then show "smale_newton newton f x0 df args tol maxiter =
     (let call = \<lparr>call_func = f, call_x0 = x0,
                   call_fprime = (if length df = 1 then Some (df ! 0) else None),
                   call_args = args, call_tol = tol, call_maxiter = maxiter\<rparr>
      in ([Warn (RuntimeWarning ''not enough derivatives provided for smale''), Call_newton call],
          newton call))"
    by (simp add: smale_newton_def certify_short[OF assms] Let_def)
  show "\<exists>e. smale_alpha f x0 df args = Inl e"
    using assms by (rule alpha_short)
qed

theorem smale_newton_not_enough_derivatives_witness:
  "length ([] :: callable list) < 2 \<and> length [cubic_df ! 0] < 2 \<and>
   smale_newton idle_newton cubic_f 10 [] [1] default_tol default_maxiter =
     ([Warn (RuntimeWarning ''not enough derivatives provided for smale''),
       Call_newton \<lparr>call_func = cubic_f, call_x0 = 10, call_fprime = None,
                    call_args = [1], call_tol = default_tol, call_maxiter = default_maxiter\<rparr>],
      Inr 10) \<and>
   smale_newton idle_newton cubic_f 10 [cubic_df ! 0] [1] default_tol default_maxiter =
     ([Warn (RuntimeWarning ''not enough derivatives provided for smale''),
       Call_newton \<lparr>call_func = cubic_f, call_x0 = 10, call_fprime = Some (cubic_df ! 0),
                    call_args = [1], call_tol = default_tol, call_maxiter = default_maxiter\<rparr>],
      Inr 10)"
  using smale_newton_not_enough_derivatives[of "[]" idle_newton cubic_f 10 "[1]" default_tol default_maxiter]
    smale_newton_not_enough_derivatives[of "[cubic_df ! 0]" idle_newton cubic_f 10 "[1]" default_tol default_maxiter]
  by (simp add: idle_newton_def Let_def)

text \<open>
  The threshold of the model is the double that the literal of the source denotes: it is a
  multiple of \<open>1 / 2^55\<close> with a mantissa of 53 bits, and it lies less than half a unit in
  the last place, \<open>1 / 2^56\<close>, from the decimal \<open>0.15767078078675478\<close>. It is not the
  decimal itself: it is larger.
\<close>

lemma alpha_threshold_double:
  "alpha_threshold = 5680688556787552 / 2 ^ 55 \<and>
   (2::nat) ^ 52 \<le> 5680688556787552 \<and> 5680688556787552 < (2::nat) ^ 53 \<and>
   \<bar>alpha_threshold - 0.15767078078675478\<bar> < 1 / 2 ^ 56 \<and>
   0.15767078078675478 < alpha_threshold"
  by (simp add: alpha_threshold_def)

text \<open>
  A function whose beta at \<open>x0\<close> is the threshold itself and whose gamma is 1: alpha is
  exactly the threshold.
\<close>

lemma alpha_at_threshold:
  "smale_alpha (\<lambda>xargs. complex_of_real alpha_threshold) 0 [\<lambda>xargs. 1, \<lambda>xargs. 2] [] = Inr alpha_threshold"
proof -
  have p: "0 \<le> alpha_threshold"
    by (simp add: alpha_threshold_def)
  have u: "[0..<Suc 0] = [0]"
    by simp
  have g: "smale_gamma f 0 [\<lambda>xargs. 1, \<lambda>xargs. 2] [] = Inr 1" for f
    by (simp add: gamma_value gterm_def u)
  show ?thesis
    using p by (simp add: smale_alpha_def smale_beta_def g)
qed

text \<open>
  Claim C4. With at least two derivatives, when \<open>smale_alpha\<close> returns \<open>alpha\<close> the
  warning \<open>the estimate may not be an approximate solution to the function\<close> is emitted
  exactly when \<open>alpha\<close> is strictly greater than the threshold, the double of the literal
  \<open>0.15767078078675478\<close>; no other warning is emitted, and in both cases the solver is
  called next. When \<open>smale_alpha\<close> raises, nothing is emitted and the exception is the
  outcome.
\<close>

theorem smale_newton_threshold_warning:
  assumes "2 \<le> length df"
  shows "(smale_alpha f x0 df args = Inr alpha \<longrightarrow>
            smale_newton newton f x0 df args tol maxiter =
              (let call = \<lparr>call_func = f, call_x0 = x0, call_fprime = Some (df ! 0),
                            call_args = args, call_tol = tol, call_maxiter = maxiter\<rparr>
               in ((if alpha > 177521517399611 / 2 ^ 50
                    then [Warn (RuntimeWarning ''the estimate may not be an approximate solution to the function'')]
                    else []) @ [Call_newton call],
                   newton call))) \<and>
         (smale_alpha f x0 df args = Inl e \<longrightarrow>
            smale_newton newton f x0 df args tol maxiter = ([], Inl e))"
proof -
  have l: "\<not> length df < 2" "df \<noteq> []"
    using assms by auto
  show ?thesis
    by (simp add: smale_newton_def smale_newton_certify_def alpha_threshold_def l Let_def)
qed

theorem smale_newton_threshold_warning_witness:
  "2 \<le> length cubic_df \<and>
   smale_alpha cubic_f 10 cubic_df [1] = Inr (333 / 1000) \<and>
   smale_newton idle_newton cubic_f 10 cubic_df [1] default_tol default_maxiter =
     ([Warn (RuntimeWarning ''the estimate may not be an approximate solution to the function''),
       Call_newton \<lparr>call_func = cubic_f, call_x0 = 10, call_fprime = Some (cubic_df ! 0),
                    call_args = [1], call_tol = default_tol, call_maxiter = default_maxiter\<rparr>],
      Inr 10) \<and>
   smale_alpha cubic_f (11 / 10) cubic_df [1] = Inr (331 / 3993) \<and>
   smale_newton idle_newton cubic_f (11 / 10) cubic_df [1] default_tol default_maxiter =
     ([Call_newton \<lparr>call_func = cubic_f, call_x0 = 11 / 10, call_fprime = Some (cubic_df ! 0),
                    call_args = [1], call_tol = default_tol, call_maxiter = default_maxiter\<rparr>],
      Inr (11 / 10)) \<and>
   2 \<le> length [\<lambda>xargs. 1, \<lambda>xargs. 2 :: complex] \<and>
   smale_alpha (\<lambda>xargs. complex_of_real alpha_threshold) 0 [\<lambda>xargs. 1, \<lambda>xargs. 2] [] =
     Inr (177521517399611 / 2 ^ 50) \<and>
   smale_newton idle_newton (\<lambda>xargs. complex_of_real alpha_threshold) 0 [\<lambda>xargs. 1, \<lambda>xargs. 2] []
       default_tol default_maxiter =
     ([Call_newton \<lparr>call_func = \<lambda>xargs. complex_of_real alpha_threshold, call_x0 = 0,
                    call_fprime = Some ([\<lambda>xargs. 1, \<lambda>xargs. 2] ! 0),
                    call_args = [], call_tol = default_tol, call_maxiter = default_maxiter\<rparr>],
      Inr 0) \<and>
   smale_alpha cubic_f 0 cubic_df [1] = Inl ZeroDivisionError \<and>
   smale_newton idle_newton cubic_f 0 cubic_df [1] default_tol default_maxiter = ([], Inl ZeroDivisionError)"
proof -
  have h: "2 \<le> length cubic_df"
    by (simp add: cubic_df_def)
  have h2: "2 \<le> length [\<lambda>xargs. 1, \<lambda>xargs. 2 :: complex]"
    by simp
  have t: "alpha_threshold = 177521517399611 / 2 ^ 50"
    by (simp add: alpha_threshold_def)
  have a10: "smale_alpha cubic_f 10 cubic_df [1] = Inr (333 / 1000)"
    by (rule alpha_cubic_10)
  have a11: "smale_alpha cubic_f (11 / 10) cubic_df [1] = Inr (331 / 3993)"
    by (rule alpha_cubic_11_10)
  have at: "smale_alpha (\<lambda>xargs. complex_of_real alpha_threshold) 0 [\<lambda>xargs. 1, \<lambda>xargs. 2] [] =
      Inr (177521517399611 / 2 ^ 50)"
    using alpha_at_threshold by (simp only: t)
  have a0: "smale_alpha cubic_f 0 cubic_df [1] = Inl ZeroDivisionError"
    by (rule alpha_cubic_0)
  have "smale_newton idle_newton cubic_f 10 cubic_df [1] default_tol default_maxiter =
     ([Warn (RuntimeWarning ''the estimate may not be an approximate solution to the function''),
       Call_newton \<lparr>call_func = cubic_f, call_x0 = 10, call_fprime = Some (cubic_df ! 0),
                    call_args = [1], call_tol = default_tol, call_maxiter = default_maxiter\<rparr>],
      Inr 10)"
    using smale_newton_threshold_warning[OF h, of cubic_f 10 "[1]" "333 / 1000" idle_newton default_tol default_maxiter] a10
    by (simp add: idle_newton_def Let_def)
  moreover have "smale_newton idle_newton cubic_f (11 / 10) cubic_df [1] default_tol default_maxiter =
     ([Call_newton \<lparr>call_func = cubic_f, call_x0 = 11 / 10, call_fprime = Some (cubic_df ! 0),
                    call_args = [1], call_tol = default_tol, call_maxiter = default_maxiter\<rparr>],
      Inr (11 / 10))"
    using smale_newton_threshold_warning[OF h, of cubic_f "11 / 10" "[1]" "331 / 3993" idle_newton default_tol default_maxiter] a11
    by (simp add: idle_newton_def Let_def)
  moreover have "smale_newton idle_newton (\<lambda>xargs. complex_of_real alpha_threshold) 0 [\<lambda>xargs. 1, \<lambda>xargs. 2] []
       default_tol default_maxiter =
     ([Call_newton \<lparr>call_func = \<lambda>xargs. complex_of_real alpha_threshold, call_x0 = 0,
                    call_fprime = Some ([\<lambda>xargs. 1, \<lambda>xargs. 2] ! 0),
                    call_args = [], call_tol = default_tol, call_maxiter = default_maxiter\<rparr>],
      Inr 0)"
    using smale_newton_threshold_warning[OF h2, of "\<lambda>xargs. complex_of_real alpha_threshold" 0 "[]"
        "177521517399611 / 2 ^ 50" idle_newton default_tol default_maxiter] at
    by (simp add: idle_newton_def Let_def)
  moreover have "smale_newton idle_newton cubic_f 0 cubic_df [1] default_tol default_maxiter = ([], Inl ZeroDivisionError)"
    using smale_newton_threshold_warning[OF h, of cubic_f 0 "[1]" _ idle_newton default_tol default_maxiter ZeroDivisionError] a0
    by simp
  ultimately show ?thesis
    using h h2 a10 a11 at a0 by blast
qed

text \<open>
  Claim C3, as amended. When the certification step does not raise, that is with fewer
  than two derivatives (the step is skipped) or when \<open>smale_alpha\<close> returns a value,
  \<open>smale_newton\<close> calls the solver exactly once, with \<open>fprime = df[0]\<close> if \<open>df\<close> is not empty
  and \<open>None\<close> otherwise and with \<open>f\<close>, \<open>x0\<close>, \<open>args\<close>, \<open>tol\<close> and \<open>maxiter\<close> unchanged, and
  its outcome is the solver's. When \<open>smale_alpha\<close> raises, its exception leaves
  \<open>smale_newton\<close> before the solver is called: the trace is empty.
\<close>

theorem smale_newton_calls_solver_once:
  "(length df < 2 \<or> smale_alpha f x0 df args = Inr alpha \<longrightarrow>
      (let call = \<lparr>call_func = f, call_x0 = x0,
                    call_fprime = (if 1 \<le> length df then Some (df ! 0) else None),
                    call_args = args, call_tol = tol, call_maxiter = maxiter\<rparr>
       in newton_calls (fst (smale_newton newton f x0 df args tol maxiter)) = [call] \<and>
          snd (smale_newton newton f x0 df args tol maxiter) = newton call)) \<and>
   (2 \<le> length df \<and> smale_alpha f x0 df args = Inl e \<longrightarrow>
      smale_newton newton f x0 df args tol maxiter = ([], Inl e))"
proof (intro conjI impI)
  assume a: "length df < 2 \<or> smale_alpha f x0 df args = Inr alpha"
  have f: "(df \<noteq> []) = (1 \<le> length df)"
    by (cases df) simp_all
  have "\<exists>warned. smale_newton_certify f x0 df args = Inr warned \<and> newton_calls warned = []"
  proof (cases "length df < 2")
    case True
    then show ?thesis
      by (simp add: certify_short)
  next
    case False
    with a have "smale_alpha f x0 df args = Inr alpha"
      by simp
    then show ?thesis
      using False by (simp add: smale_newton_certify_def)
  qed
  then obtain warned where w: "smale_newton_certify f x0 df args = Inr warned" and n: "newton_calls warned = []"
    by blast
  have app: "newton_calls (warned @ es) = newton_calls es" for es
    using n by (induction warned rule: newton_calls.induct) simp_all
  show "let call = \<lparr>call_func = f, call_x0 = x0,
                    call_fprime = (if 1 \<le> length df then Some (df ! 0) else None),
                    call_args = args, call_tol = tol, call_maxiter = maxiter\<rparr>
       in newton_calls (fst (smale_newton newton f x0 df args tol maxiter)) = [call] \<and>
          snd (smale_newton newton f x0 df args tol maxiter) = newton call"
    by (simp add: smale_newton_def w Let_def app f)
next
  assume "2 \<le> length df \<and> smale_alpha f x0 df args = Inl e"
  then have l: "\<not> length df < 2" and z: "smale_alpha f x0 df args = Inl e"
    by auto
  then have c: "smale_newton_certify f x0 df args = Inl e"
    by (simp add: smale_newton_certify_def)
  show "smale_newton newton f x0 df args tol maxiter = ([], Inl e)"
    by (simp add: smale_newton_def c)
qed

text \<open>
  Claim C3 as stated, for every input, fails: for \<open>f(x,a) = x**3 - a\<close> with its three
  derivatives (the lambdas of \<open>test_function_arguments\<close>), \<open>a = 1\<close> and \<open>x0 = 0\<close>, the first
  derivative is zero at \<open>x0\<close>; the division \<open>-1.0/0.0\<close> in \<open>smale_beta\<close> raises and the
  solver is never called.
\<close>

theorem smale_newton_zero_derivative_counterexample:
  "newton_calls (fst (smale_newton idle_newton cubic_f 0 cubic_df [1] default_tol default_maxiter)) = [] \<and>
   snd (smale_newton idle_newton cubic_f 0 cubic_df [1] default_tol default_maxiter) = Inl ZeroDivisionError"
proof -
  have "\<not> length cubic_df < 2"
    by (simp add: cubic_df_def)
  then have "smale_newton_certify cubic_f 0 cubic_df [1] = Inl ZeroDivisionError"
    by (simp add: smale_newton_certify_def alpha_cubic_0)
  then show ?thesis
    by (simp add: smale_newton_def)
qed

theorem smale_newton_calls_solver_once_witness:
  "length ([] :: callable list) < 2 \<and>
   newton_calls (fst (smale_newton idle_newton cubic_f 10 [] [1] default_tol default_maxiter)) =
     [\<lparr>call_func = cubic_f, call_x0 = 10, call_fprime = None,
       call_args = [1], call_tol = default_tol, call_maxiter = default_maxiter\<rparr>] \<and>
   snd (smale_newton idle_newton cubic_f 10 [] [1] default_tol default_maxiter) = Inr 10 \<and>
   smale_alpha cubic_f (11 / 10) cubic_df [1] = Inr (331 / 3993) \<and>
   newton_calls (fst (smale_newton idle_newton cubic_f (11 / 10) cubic_df [1] default_tol default_maxiter)) =
     [\<lparr>call_func = cubic_f, call_x0 = 11 / 10, call_fprime = Some (cubic_df ! 0),
       call_args = [1], call_tol = default_tol, call_maxiter = default_maxiter\<rparr>] \<and>
   snd (smale_newton idle_newton cubic_f (11 / 10) cubic_df [1] default_tol default_maxiter) = Inr (11 / 10) \<and>
   smale_alpha cubic_f 10 cubic_df [1] = Inr (333 / 1000) \<and>
   newton_calls (fst (smale_newton idle_newton cubic_f 10 cubic_df [1] default_tol default_maxiter)) =
     [\<lparr>call_func = cubic_f, call_x0 = 10, call_fprime = Some (cubic_df ! 0),
       call_args = [1], call_tol = default_tol, call_maxiter = default_maxiter\<rparr>] \<and>
   snd (smale_newton idle_newton cubic_f 10 cubic_df [1] default_tol default_maxiter) = Inr 10 \<and>
   2 \<le> length cubic_df \<and> smale_alpha cubic_f 0 cubic_df [1] = Inl ZeroDivisionError \<and>
   newton_calls (fst (smale_newton idle_newton cubic_f 0 cubic_df [1] default_tol default_maxiter)) = [] \<and>
   snd (smale_newton idle_newton cubic_f 0 cubic_df [1] default_tol default_maxiter) = Inl ZeroDivisionError"
proof -
  have h: "2 \<le> length cubic_df" "1 \<le> length cubic_df"
    by (simp_all add: cubic_df_def)
  have a11: "smale_alpha cubic_f (11 / 10) cubic_df [1] = Inr (331 / 3993)"
    by (rule alpha_cubic_11_10)
  have a10: "smale_alpha cubic_f 10 cubic_df [1] = Inr (333 / 1000)"
    by (rule alpha_cubic_10)
  have a0: "smale_alpha cubic_f 0 cubic_df [1] = Inl ZeroDivisionError"
    by (rule alpha_cubic_0)
  show ?thesis
    using h a11 a10 a0
      smale_newton_calls_solver_once[of "[]" cubic_f 10 "[1]" _ default_tol default_maxiter idle_newton]
      smale_newton_calls_solver_once[of cubic_df cubic_f "11 / 10" "[1]" "331 / 3993" default_tol default_maxiter idle_newton]
      smale_newton_calls_solver_once[of cubic_df cubic_f 10 "[1]" "333 / 1000" default_tol default_maxiter idle_newton]
      smale_newton_calls_solver_once[of cubic_df cubic_f 0 "[1]" _ default_tol default_maxiter idle_newton ZeroDivisionError]
    by (simp add: idle_newton_def Let_def)
qed

end
